theory Spec2Isabelle
  imports Main "HOL-Library.AList"
begin

section \<open>Errors and JavaScript truthiness\<close>

text \<open>
  The TypeScript sources raise plain \<^verbatim>\<open>Error\<close> objects that differ only in their
  message. Each distinct raise of the modelled code is one constructor; the
  names follow the taxonomy of the specification where it has one.
\<close>

datatype error =
    NoActiveKeyError        \<comment> \<open>\<^verbatim>\<open>EncryptionService.encrypt/decrypt\<close>: no password is set\<close>
  | DecryptionError         \<comment> \<open>\<^verbatim>\<open>decrypt\<close>: empty plaintext; \<^verbatim>\<open>getNote\<close>: any failure while decrypting\<close>
  | MalformedUtf8Error      \<comment> \<open>raised by the cipher library when the bytes are not UTF-8\<close>
  | DuplicateFolderError    \<comment> \<open>\<^verbatim>\<open>createFolder\<close>: the folder exists\<close>
  | NoPasswordError         \<comment> \<open>\<^verbatim>\<open>createNote/updateNote\<close>: set a password first\<close>
  | DuplicateTitleError string string  \<comment> \<open>\<^verbatim>\<open>createNote\<close>: folder and title\<close>
  | FileReadError           \<comment> \<open>\<^verbatim>\<open>fs.readFileSync\<close> throws\<close>
  | FileWriteError          \<comment> \<open>\<^verbatim>\<open>fs.writeFileSync\<close> throws\<close>
  | JsonSyntaxError         \<comment> \<open>\<^verbatim>\<open>JSON.parse\<close> or the decoding of a response body throws\<close>
  | TypeError               \<comment> \<open>a method call on \<^verbatim>\<open>undefined\<close>\<close>
  | SyncConfigIncompleteError  \<comment> \<open>URL, user name, password or token missing\<close>
  | TokenNotFoundError      \<comment> \<open>the secret store holds no token\<close>
  | NetworkError            \<comment> \<open>\<^verbatim>\<open>fetch\<close> rejects\<close>
  | SyncTransportError string  \<comment> \<open>the backend answered with a failure status\<close>

text \<open>
  \<^verbatim>\<open>!x\<close> on a value of type \<^verbatim>\<open>string | null | undefined\<close> is true for
  \<^verbatim>\<open>null\<close>, \<^verbatim>\<open>undefined\<close> and the empty string.
\<close>

fun truthy :: "string option \<Rightarrow> bool" where
  "truthy None = False"
| "truthy (Some s) = (s \<noteq> [])"

section \<open>EncryptionService (src/core/Encryption.ts)\<close>

text \<open>
  The AES primitive of the CryptoJS library is not code of the repository. It
  is a parameter of the model: \<open>aes_encrypt salt text password\<close> stands for
  \<^verbatim>\<open>CryptoJS.AES.encrypt(text, password).toString()\<close> with the random salt
  made explicit, and \<open>aes_decrypt ciphertext password\<close> for
  \<^verbatim>\<open>CryptoJS.AES.decrypt(ciphertext, password).toString(CryptoJS.enc.Utf8)\<close>,
  where \<open>None\<close> is the exception of the library on bytes that are not UTF-8.
\<close>

record crypto =
  aes_encrypt :: "nat \<Rightarrow> string \<Rightarrow> string \<Rightarrow> string"
  aes_decrypt :: "string \<Rightarrow> string \<Rightarrow> string option"

text \<open>The two static fields of the class.\<close>

record session =
  currentUser :: "string option"
  userPasswords :: "string \<rightharpoonup> string"

definition initial_session :: session where
  "initial_session = \<lparr>currentUser = None, userPasswords = Map.empty\<rparr>"

definition setCurrentUser :: "string \<Rightarrow> string \<Rightarrow> session \<Rightarrow> session" where
  "setCurrentUser username password s =
     \<lparr>currentUser = Some username,
      userPasswords = (userPasswords s)(username \<mapsto> password)\<rparr>"

definition getCurrentUser :: "session \<Rightarrow> string option" where
  "getCurrentUser s = currentUser s"

definition hasPassword :: "session \<Rightarrow> bool" where
  "hasPassword s =
     (case currentUser s of
        None \<Rightarrow> False
      | Some u \<Rightarrow> userPasswords s u \<noteq> None)"

text \<open>
  The guard of \<^verbatim>\<open>encrypt\<close> and \<^verbatim>\<open>decrypt\<close> is
  \<^verbatim>\<open>!this.currentUser || !this.userPasswords.has(this.currentUser)\<close>: unlike
  \<^verbatim>\<open>hasPassword\<close> it also rejects the empty user name.
\<close>

definition active_password :: "session \<Rightarrow> string option" where
  "active_password s =
     (if \<not> truthy (currentUser s) then None
      else userPasswords s (the (currentUser s)))"

definition encrypt :: "crypto \<Rightarrow> session \<Rightarrow> nat \<Rightarrow> string \<Rightarrow> error + string" where
  "encrypt c s salt text =
     (case active_password s of
        None \<Rightarrow> Inl NoActiveKeyError
      | Some password \<Rightarrow> Inr (aes_encrypt c salt text password))"

definition decrypt :: "crypto \<Rightarrow> session \<Rightarrow> string \<Rightarrow> error + string" where
  "decrypt c s encryptedText =
     (case active_password s of
        None \<Rightarrow> Inl NoActiveKeyError
      | Some password \<Rightarrow>
          (case aes_decrypt c encryptedText password of
             None \<Rightarrow> Inl MalformedUtf8Error
           | Some decrypted \<Rightarrow>
               if decrypted = [] then Inl DecryptionError else Inr decrypted))"

definition logout :: "session \<Rightarrow> session" where
  "logout s =
     (if truthy (currentUser s)
      then \<lparr>currentUser = None,
            userPasswords = (userPasswords s)(the (currentUser s) := None)\<rparr>
      else s)"

text \<open>\<^verbatim>\<open>decrypt(encrypt(text))\<close>: an exception of the first call is the result.\<close>

definition encrypt_then_decrypt :: "crypto \<Rightarrow> session \<Rightarrow> nat \<Rightarrow> string \<Rightarrow> error + string" where
  "encrypt_then_decrypt c s salt text =
     (case encrypt c s salt text of
        Inl e \<Rightarrow> Inl e
      | Inr ciphertext \<Rightarrow> decrypt c s ciphertext)"

section \<open>The data model\<close>

text \<open>
  Modelled from the spec: the type declarations of \<^verbatim>\<open>src/models/Note.ts\<close>
  (\<^verbatim>\<open>Folder\<close>, \<^verbatim>\<open>Note\<close>, \<^verbatim>\<open>EncryptedNote\<close>, \<^verbatim>\<open>EncryptedStorage\<close>) are not
  among the sources; the records follow the data model and the persisted file
  format of the specification and the field accesses of the code. Field names
  carry a prefix where two records share a name or the name is reserved. Time
  stamps are the integer milliseconds of \<^verbatim>\<open>Date.now()\<close>. The folder of a
  stored note is optional: the code reads it with
  \<^verbatim>\<open>encrypted.folder || 'default'\<close>.
\<close>

record Folder =
  f_name :: string
  f_createdAt :: int

record Note =
  n_id :: string
  n_folder :: string
  n_title :: string
  n_content :: string
  n_createdAt :: int
  n_updatedAt :: int

record EncryptedNote =
  e_id :: string
  e_folder :: "string option"
  encryptedTitle :: string
  encryptedContent :: string
  e_createdAt :: int
  e_updatedAt :: int

record EncryptedStorage =
  st_folders :: "Folder list"
  st_notes :: "EncryptedNote list"

section \<open>NotesManager (src/core/NotesManager.ts)\<close>

text \<open>
  The text of a file is represented by what \<^verbatim>\<open>JSON.parse\<close> makes of it:
  \<open>Malformed\<close> when reading or parsing throws, \<open>BareArray\<close> for a top-level
  array (the legacy format) and \<open>Document\<close> for an object of the
  \<^verbatim>\<open>EncryptedStorage\<close> shape, which is also what parsing the output of
  \<^verbatim>\<open>JSON.stringify(storage, null, 2)\<close> gives back. The code returns any
  other parsed value unchecked under the type \<^verbatim>\<open>EncryptedStorage\<close>; such files
  are outside the model. Files are keyed by their name inside the storage
  directory, which is fixed at construction.
\<close>

datatype file_data =
    Malformed
  | BareArray "EncryptedNote list"
  | Document EncryptedStorage

record world =
  sess :: session
  files :: "string \<rightharpoonup> file_data"
  disk_writable :: bool  \<comment> \<open>\<open>False\<close>: \<^verbatim>\<open>fs.writeFileSync\<close> throws\<close>

definition empty_storage :: EncryptedStorage where
  "empty_storage = \<lparr>st_folders = [], st_notes = []\<rparr>"

definition getStorageFile :: "world \<Rightarrow> string" where
  "getStorageFile w =
     (let user = (if truthy (currentUser (sess w)) then the (currentUser (sess w))
                  else ''default'')
      in ''notes_'' @ user @ ''.encrypted'')"

text \<open>The whole body is inside \<^verbatim>\<open>try\<close>; the \<^verbatim>\<open>catch\<close> logs and falls through.\<close>

definition loadStorage :: "world \<Rightarrow> EncryptedStorage" where
  "loadStorage w =
     (case files w (getStorageFile w) of
        None \<Rightarrow> empty_storage
      | Some Malformed \<Rightarrow> empty_storage
      | Some (BareArray parsed) \<Rightarrow> \<lparr>st_folders = [], st_notes = parsed\<rparr>
      | Some (Document parsed) \<Rightarrow> parsed)"

text \<open>A failed write shows a message and leaves the disk as it was.\<close>

definition saveStorage :: "EncryptedStorage \<Rightarrow> world \<Rightarrow> world" where
  "saveStorage storage w =
     (if disk_writable w
      then w\<lparr>files := (files w)(getStorageFile w \<mapsto> Document storage)\<rparr>
      else w)"

definition getFolders :: "world \<Rightarrow> Folder list" where
  "getFolders w = st_folders (loadStorage w)"

definition createFolder :: "string \<Rightarrow> int \<Rightarrow> world \<Rightarrow> (error + unit) \<times> world" where
  "createFolder name now w =
     (let storage = loadStorage w
      in if list_ex (\<lambda>f. f_name f = name) (st_folders storage)
         then (Inl DuplicateFolderError, w)
         else (Inr (),
               saveStorage
                 (storage\<lparr>st_folders := st_folders storage @ [\<lparr>f_name = name, f_createdAt = now\<rparr>]\<rparr>)
                 w))"

definition deleteFolder :: "string \<Rightarrow> world \<Rightarrow> world" where
  "deleteFolder name w =
     (let storage = loadStorage w
      in saveStorage
           (storage\<lparr>st_folders := filter (\<lambda>f. f_name f \<noteq> name) (st_folders storage),
                    st_notes := filter (\<lambda>n. e_folder n \<noteq> Some name) (st_notes storage)\<rparr>)
           w)"

text \<open>\<^verbatim>\<open>encrypted.folder || 'default'\<close>\<close>

definition folder_or_default :: "string option \<Rightarrow> string" where
  "folder_or_default f = (if truthy f then the f else ''default'')"

text \<open>
  The object literal shared by \<^verbatim>\<open>getAllNotes\<close> and \<^verbatim>\<open>getNote\<close>: the title
  is decrypted before the content, and the first exception leaves the literal.
\<close>

definition decrypt_note :: "crypto \<Rightarrow> session \<Rightarrow> EncryptedNote \<Rightarrow> error + Note" where
  "decrypt_note c s encrypted =
     (case decrypt c s (encryptedTitle encrypted) of
        Inl e \<Rightarrow> Inl e
      | Inr title \<Rightarrow>
          (case decrypt c s (encryptedContent encrypted) of
             Inl e \<Rightarrow> Inl e
           | Inr content \<Rightarrow>
               Inr \<lparr>n_id = e_id encrypted,
                    n_folder = folder_or_default (e_folder encrypted),
                    n_title = title,
                    n_content = content,
                    n_createdAt = e_createdAt encrypted,
                    n_updatedAt = e_updatedAt encrypted\<rparr>))"

text \<open>The loop of \<^verbatim>\<open>getAllNotes\<close>: a note that fails to decrypt is logged and skipped.\<close>

fun decryptedNotes :: "crypto \<Rightarrow> session \<Rightarrow> EncryptedNote list \<Rightarrow> Note list" where
  "decryptedNotes c s [] = []"
| "decryptedNotes c s (encrypted # rest) =
     (case decrypt_note c s encrypted of
        Inl e \<Rightarrow> decryptedNotes c s rest
      | Inr n \<Rightarrow> n # decryptedNotes c s rest)"

definition getAllNotes :: "crypto \<Rightarrow> world \<Rightarrow> Note list" where
  "getAllNotes c w =
     (if \<not> hasPassword (sess w) then []
      else decryptedNotes c (sess w) (st_notes (loadStorage w)))"

definition getNote :: "crypto \<Rightarrow> world \<Rightarrow> string \<Rightarrow> error + Note option" where
  "getNote c w ident =
     (if \<not> hasPassword (sess w) then Inr None
      else
        (case find (\<lambda>n. e_id n = ident) (st_notes (loadStorage w)) of
           None \<Rightarrow> Inr None
         | Some encrypted \<Rightarrow>
             (case decrypt_note c (sess w) encrypted of
                Inl e \<Rightarrow> Inl DecryptionError
              | Inr n \<Rightarrow> Inr (Some n))))"

text \<open>\<^verbatim>\<open>Date.now().toString()\<close>: the decimal digits of an integer.\<close>

definition digit_char :: "nat \<Rightarrow> char" where
  "digit_char d = ''0123456789'' ! d"

fun digits :: "nat \<Rightarrow> string" where
  "digits n = (if n < 10 then [digit_char n] else digits (n div 10) @ [digit_char (n mod 10)])"

declare digits.simps [simp del]

definition toString :: "int \<Rightarrow> string" where
  "toString i = (if i < 0 then CHR ''-'' # digits (nat (- i)) else digits (nat i))"

text \<open>
  What \<^verbatim>\<open>createNote\<close> takes from its environment: the three readings of the
  clock (for the id, \<^verbatim>\<open>createdAt\<close> and \<^verbatim>\<open>updatedAt\<close>) and the random salts of
  its two encryptions.
\<close>

record create_env =
  id_time :: int
  created_time :: int
  updated_time :: int
  title_salt :: nat
  content_salt :: nat

text \<open>
  The folder argument is optional (\<^verbatim>\<open>folder: string = 'default'\<close>): \<open>None\<close> is
  the omitted argument. The default does not replace an empty string.
\<close>

definition createNote ::
  "crypto \<Rightarrow> create_env \<Rightarrow> string \<Rightarrow> string \<Rightarrow> string option \<Rightarrow> world \<Rightarrow> (error + Note) \<times> world" where
  "createNote c env title content folder_arg w =
     (let folder = (case folder_arg of None \<Rightarrow> ''default'' | Some f \<Rightarrow> f)
      in if \<not> hasPassword (sess w) then (Inl NoPasswordError, w)
         else
           (case find (\<lambda>n. n_folder n = folder \<and> n_title n = title) (getAllNotes c w) of
              Some duplicate \<Rightarrow> (Inl (DuplicateTitleError folder title), w)
            | None \<Rightarrow>
                (let n = \<lparr>n_id = toString (id_time env),
                          n_folder = folder,
                          n_title = title,
                          n_content = content,
                          n_createdAt = created_time env,
                          n_updatedAt = updated_time env\<rparr>
                 in case encrypt c (sess w) (title_salt env) title of
                      Inl e \<Rightarrow> (Inl e, w)
                    | Inr etitle \<Rightarrow>
                        (case encrypt c (sess w) (content_salt env) content of
                           Inl e \<Rightarrow> (Inl e, w)
                         | Inr econtent \<Rightarrow>
                             (let encryptedNote =
                                    \<lparr>e_id = n_id n,
                                     e_folder = Some folder,
                                     encryptedTitle = etitle,
                                     encryptedContent = econtent,
                                     e_createdAt = n_createdAt n,
                                     e_updatedAt = n_updatedAt n\<rparr>;
                                  storage = loadStorage w
                              in (Inr n,
                                  saveStorage
                                    (storage\<lparr>st_notes := st_notes storage @ [encryptedNote]\<rparr>) w))))))"

text \<open>\<^verbatim>\<open>find\<close> returns the first match, and the assignments change that element in place.\<close>

fun update_first :: "('a \<Rightarrow> bool) \<Rightarrow> ('a \<Rightarrow> 'a) \<Rightarrow> 'a list \<Rightarrow> 'a list" where
  "update_first P f [] = []"
| "update_first P f (x # xs) = (if P x then f x # xs else x # update_first P f xs)"

definition updateNote ::
  "crypto \<Rightarrow> int \<Rightarrow> nat \<Rightarrow> nat \<Rightarrow> string \<Rightarrow> string \<Rightarrow> string \<Rightarrow> world \<Rightarrow> (error + unit) \<times> world" where
  "updateNote c now salt1 salt2 ident title content w =
     (if \<not> hasPassword (sess w) then (Inl NoPasswordError, w)
      else
        (let storage = loadStorage w
         in case find (\<lambda>n. e_id n = ident) (st_notes storage) of
              None \<Rightarrow> (Inr (), w)
            | Some found \<Rightarrow>
                (case encrypt c (sess w) salt1 title of
                   Inl e \<Rightarrow> (Inl e, w)
                 | Inr etitle \<Rightarrow>
                     (case encrypt c (sess w) salt2 content of
                        Inl e \<Rightarrow> (Inl e, w)
                      | Inr econtent \<Rightarrow>
                          (Inr (),
                           saveStorage
                             (storage\<lparr>st_notes :=
                                update_first (\<lambda>n. e_id n = ident)
                                  (\<lambda>n. n\<lparr>encryptedTitle := etitle,
                                          encryptedContent := econtent,
                                          e_updatedAt := now\<rparr>)
                                  (st_notes storage)\<rparr>)
                             w)))))"

definition deleteNote :: "string \<Rightarrow> world \<Rightarrow> world" where
  "deleteNote ident w =
     (let storage = loadStorage w
      in saveStorage (storage\<lparr>st_notes := filter (\<lambda>n. e_id n \<noteq> ident) (st_notes storage)\<rparr>) w)"

subsection \<open>Sequences of calls\<close>

text \<open>
  A sequence of \<^verbatim>\<open>createNote\<close> calls, each with its own environment. A call
  that raises leaves the world as it was, and the next call runs on it.
\<close>

record create_request =
  req_env :: create_env
  req_title :: string
  req_content :: string
  req_folder :: "string option"

fun createNotes :: "crypto \<Rightarrow> create_request list \<Rightarrow> world \<Rightarrow> world" where
  "createNotes c [] w = w"
| "createNotes c (r # rs) w =
     createNotes c rs
       (snd (createNote c (req_env r) (req_title r) (req_content r) (req_folder r) w))"

text \<open>The \<open>(folder, title)\<close> pairs of the notes that \<^verbatim>\<open>getAllNotes\<close> returns.\<close>

definition title_keys :: "crypto \<Rightarrow> world \<Rightarrow> (string \<times> string) list" where
  "title_keys c w = map (\<lambda>n. (n_folder n, n_title n)) (getAllNotes c w)"

text \<open>
  \<^verbatim>\<open>createFolder("F"); createNote("t", "c", "F"); deleteFolder("F")\<close>, a
  call that raises being caught by the caller: the world is as it was and the
  next call runs.
\<close>

definition cascade_scenario :: "crypto \<Rightarrow> int \<Rightarrow> create_env \<Rightarrow> world \<Rightarrow> world" where
  "cascade_scenario c now env w =
     deleteFolder ''F''
       (snd (createNote c env ''t'' ''c'' (Some ''F'') (snd (createFolder ''F'' now w))))"

section \<open>SyncService (src/core/Encryption.ts, second class)\<close>

datatype SyncProvider = ProviderNone | WebDAV | GitHub | Custom

record SyncConfig =
  cfg_provider :: SyncProvider
  cfg_url :: "string option"
  cfg_username :: "string option"
  cfg_password :: "string option"
  cfg_token :: "string option"
  cfg_autoSync :: "bool option"

record SyncService =
  config :: SyncConfig
  syncInProgress :: bool

subsection \<open>The environment of a synchronisation\<close>

text \<open>
  What the requests of the sync paths carry: the URL, the credentials, the
  body and, for the repository API, the revision token. The commit message of
  the GitHub request (a formatted date) is left out.
\<close>

datatype request =
    WebDAVPut string string string string  \<comment> \<open>URL, user name, password, body\<close>
  | WebDAVGet string string string  \<comment> \<open>URL, user name, password\<close>
  | GitHubGet string string  \<comment> \<open>URL, token\<close>
  | GitHubPut string string string "string option"  \<comment> \<open>URL, token, content, sha\<close>

record Response =
  r_ok :: bool
  r_status :: nat
  r_statusText :: string
  r_text :: string

text \<open>
  \<open>readFileSync\<close> is \<open>None\<close> where \<^verbatim>\<open>fs.readFileSync\<close> throws, \<open>fetch\<close> is
  \<open>None\<close> where the promise of \<^verbatim>\<open>fetch\<close> rejects, \<open>secrets_token\<close> is what
  \<^verbatim>\<open>context.secrets.get('sync.token')\<close> resolves to, and \<open>json_sha\<close> reads the
  \<^verbatim>\<open>sha\<close> field of a JSON body (\<open>None\<close> when parsing throws or the field is
  missing). \<open>json_content\<close> decodes the base64 \<^verbatim>\<open>content\<close> field of a JSON body
  (\<open>None\<close> when that throws). \<open>json_parse\<close> and \<open>json_stringify\<close> are
  \<^verbatim>\<open>JSON.parse\<close> and \<^verbatim>\<open>JSON.stringify\<close> on documents, the parsed text
  classified as for the storage file. With \<open>fs_writable\<close> false,
  \<^verbatim>\<open>fs.writeFileSync\<close> throws.
\<close>

record sync_env =
  readFileSync :: "string \<Rightarrow> string option"
  fs_writable :: bool
  fetch :: "request \<Rightarrow> Response option"
  secrets_token :: "string option"
  json_sha :: "string \<Rightarrow> string option"
  json_content :: "string \<Rightarrow> string option"
  json_parse :: "string \<Rightarrow> file_data"
  json_stringify :: "EncryptedStorage \<Rightarrow> string"

subsection \<open>Upload\<close>

definition uploadToWebDAV :: "SyncConfig \<Rightarrow> sync_env \<Rightarrow> string \<Rightarrow> string \<Rightarrow> error + bool" where
  "uploadToWebDAV cfg env fileName content =
     (if \<not> truthy (cfg_url cfg) \<or> \<not> truthy (cfg_username cfg) \<or> \<not> truthy (cfg_password cfg)
      then Inl SyncConfigIncompleteError
      else
        (case fetch env (WebDAVPut (the (cfg_url cfg) @ ''/'' @ fileName)
                           (the (cfg_username cfg)) (the (cfg_password cfg)) content) of
           None \<Rightarrow> Inl NetworkError
         | Some response \<Rightarrow>
             if r_ok response then Inr True
             else Inl (SyncTransportError (r_statusText response))))"

text \<open>The failure of the first request (the lookup of the sha) is caught and ignored.\<close>

definition uploadToGitHub :: "SyncConfig \<Rightarrow> sync_env \<Rightarrow> string \<Rightarrow> string \<Rightarrow> error + bool" where
  "uploadToGitHub cfg env fileName content =
     (if \<not> truthy (cfg_url cfg) \<or> \<not> truthy (cfg_token cfg) then Inl SyncConfigIncompleteError
      else if \<not> truthy (secrets_token env) then Inl TokenNotFoundError
      else
        (let tok = the (secrets_token env);
             apiUrl = the (cfg_url cfg) @ ''/contents/'' @ fileName;
             sha = (case fetch env (GitHubGet apiUrl tok) of
                      None \<Rightarrow> None
                    | Some getResponse \<Rightarrow>
                        if r_ok getResponse then json_sha env (r_text getResponse) else None)
         in case fetch env (GitHubPut apiUrl tok content (if truthy sha then sha else None)) of
              None \<Rightarrow> Inl NetworkError
            | Some response \<Rightarrow>
                if r_ok response then Inr True
                else Inl (SyncTransportError (r_text response))))"

definition uploadToCustom :: "string \<Rightarrow> string \<Rightarrow> error + bool" where
  "uploadToCustom fileName content = Inr False"

text \<open>The body of the \<^verbatim>\<open>try\<close> block of \<^verbatim>\<open>uploadToCloud\<close>.\<close>

definition uploadToCloud_try :: "SyncService \<Rightarrow> sync_env \<Rightarrow> string \<Rightarrow> string \<Rightarrow> error + bool" where
  "uploadToCloud_try svc env localFilePath user =
     (case readFileSync env localFilePath of
        None \<Rightarrow> Inl FileReadError
      | Some fileContent \<Rightarrow>
          (let fileName = ''notes_'' @ user @ ''.encrypted''
           in case cfg_provider (config svc) of
                WebDAV \<Rightarrow> uploadToWebDAV (config svc) env fileName fileContent
              | GitHub \<Rightarrow> uploadToGitHub (config svc) env fileName fileContent
              | Custom \<Rightarrow> uploadToCustom fileName fileContent
              | ProviderNone \<Rightarrow> Inr False))"

text \<open>
  The result is what the caller receives (\<open>Inl\<close> would be an exception that
  leaves the function) and the service after the call. The \<^verbatim>\<open>catch\<close> block
  shows a message and returns \<^verbatim>\<open>false\<close>; the \<^verbatim>\<open>finally\<close> block clears the flag.
\<close>

definition uploadToCloud ::
  "SyncService \<Rightarrow> sync_env \<Rightarrow> string \<Rightarrow> string \<Rightarrow> (error + bool) \<times> SyncService" where
  "uploadToCloud svc env localFilePath user =
     (if cfg_provider (config svc) = ProviderNone then (Inr False, svc)
      else if syncInProgress svc then (Inr False, svc)
      else
        (let running = svc\<lparr>syncInProgress := True\<rparr>;
             outcome = (case uploadToCloud_try running env localFilePath user of
                          Inl e \<Rightarrow> Inr False
                        | Inr b \<Rightarrow> Inr b)
         in (outcome, running\<lparr>syncInProgress := False\<rparr>)))"

subsection \<open>Reconciliation: steps 3 to 5 of smartMerge\<close>

text \<open>
  The JavaScript \<^verbatim>\<open>Map\<close> from note ids to notes is an association list in
  insertion order: \<^verbatim>\<open>set\<close> on a present key replaces the value in place and on a
  new key appends (\<^const>\<open>AList.update\<close>), \<^verbatim>\<open>get\<close> is \<^const>\<open>map_of\<close>, and
  \<^verbatim>\<open>Array.from(map.values())\<close> is the list of the second components.
\<close>

definition seedLocal :: "EncryptedNote list \<Rightarrow> (string \<times> EncryptedNote) list" where
  "seedLocal localNotes = foldl (\<lambda>m n. AList.update (e_id n) n m) [] localNotes"

definition mergeCloudNote ::
  "(string \<times> EncryptedNote) list \<Rightarrow> EncryptedNote \<Rightarrow> (string \<times> EncryptedNote) list" where
  "mergeCloudNote m cloudNote =
     (case map_of m (e_id cloudNote) of
        None \<Rightarrow> AList.update (e_id cloudNote) cloudNote m
      | Some localNote \<Rightarrow>
          if e_updatedAt cloudNote > e_updatedAt localNote
          then AList.update (e_id cloudNote) cloudNote m
          else m)"

definition mergedNotesMap ::
  "EncryptedNote list \<Rightarrow> EncryptedNote list \<Rightarrow> (string \<times> EncryptedNote) list" where
  "mergedNotesMap localNotes cloudNotes = foldl mergeCloudNote (seedLocal localNotes) cloudNotes"

text \<open>A JavaScript \<^verbatim>\<open>Set\<close> keeps the order of first insertion.\<close>

definition set_add :: "'a \<Rightarrow> 'a list \<Rightarrow> 'a list" where
  "set_add x xs = (if x \<in> set xs then xs else xs @ [x])"

definition allFolders :: "Folder list \<Rightarrow> Folder list \<Rightarrow> string list" where
  "allFolders localFolders cloudFolders =
     foldl (\<lambda>s f. set_add (f_name f) s)
       (foldl (\<lambda>s f. set_add (f_name f) s) [] localFolders) cloudFolders"

text \<open>
  The merged document. \<open>clock i\<close> is the reading of \<^verbatim>\<open>Date.now()\<close> for the
  \<open>i\<close>-th merged folder.
\<close>

definition mergedData :: "(nat \<Rightarrow> int) \<Rightarrow> EncryptedStorage \<Rightarrow> EncryptedStorage \<Rightarrow> EncryptedStorage" where
  "mergedData clock localData cloudData =
     (let mergedFolders =
            map (\<lambda>(i, name). \<lparr>f_name = name, f_createdAt = clock i\<rparr>)
              (enumerate 0 (allFolders (st_folders localData) (st_folders cloudData)))
      in \<lparr>st_folders = mergedFolders,
          st_notes = map snd (mergedNotesMap (st_notes localData) (st_notes cloudData))\<rparr>)"

text \<open>The entry that a cloud note leaves in the map, given the entry it finds.\<close>

definition newer :: "EncryptedNote \<Rightarrow> EncryptedNote option \<Rightarrow> EncryptedNote" where
  "newer cloudNote entry =
     (case entry of
        None \<Rightarrow> cloudNote
      | Some localNote \<Rightarrow>
          if e_updatedAt cloudNote > e_updatedAt localNote then cloudNote else localNote)"

text \<open>Keys are pairwise different, and each entry is stored under its own id.\<close>

definition keyed :: "(string \<times> EncryptedNote) list \<Rightarrow> bool" where
  "keyed m \<longleftrightarrow> distinct (map fst m) \<and> (\<forall>(k, v) \<in> set m. k = e_id v)"

subsection \<open>Download and smartMerge\<close>

definition downloadFromWebDAV :: "SyncConfig \<Rightarrow> sync_env \<Rightarrow> string \<Rightarrow> error + string option" where
  "downloadFromWebDAV cfg env fileName =
     (if \<not> truthy (cfg_url cfg) \<or> \<not> truthy (cfg_username cfg) \<or> \<not> truthy (cfg_password cfg)
      then Inl SyncConfigIncompleteError
      else
        (case fetch env (WebDAVGet (the (cfg_url cfg) @ ''/'' @ fileName)
                           (the (cfg_username cfg)) (the (cfg_password cfg))) of
           None \<Rightarrow> Inl NetworkError
         | Some response \<Rightarrow>
             if r_ok response then Inr (Some (r_text response))
             else if r_status response = 404 then Inr None
             else Inl (SyncTransportError (r_statusText response))))"

definition downloadFromGitHub :: "SyncConfig \<Rightarrow> sync_env \<Rightarrow> string \<Rightarrow> error + string option" where
  "downloadFromGitHub cfg env fileName =
     (if \<not> truthy (cfg_url cfg) \<or> \<not> truthy (cfg_token cfg) then Inl SyncConfigIncompleteError
      else if \<not> truthy (secrets_token env) then Inl TokenNotFoundError
      else
        (case fetch env (GitHubGet (the (cfg_url cfg) @ ''/contents/'' @ fileName)
                           (the (secrets_token env))) of
           None \<Rightarrow> Inl NetworkError
         | Some response \<Rightarrow>
             if r_ok response
             then (case json_content env (r_text response) of
                     None \<Rightarrow> Inl JsonSyntaxError
                   | Some content \<Rightarrow> Inr (Some content))
             else if r_status response = 404 then Inr None
             else Inl (SyncTransportError (r_statusText response))))"

definition downloadFromCustom :: "string \<Rightarrow> error + string option" where
  "downloadFromCustom fileName = Inr None"

text \<open>
  The body of the \<^verbatim>\<open>try\<close> block of \<^verbatim>\<open>smartMerge\<close>. It returns the service
  and the environment after the merge: the local file is overwritten with the
  merged document, which \<^verbatim>\<open>uploadToCloud\<close> then reads. The local text is
  parsed before the cloud text, and only then are the \<^verbatim>\<open>notes\<close> of the two read.
\<close>

definition smartMerge_try ::
  "SyncService \<Rightarrow> sync_env \<Rightarrow> (nat \<Rightarrow> int) \<Rightarrow> string \<Rightarrow> string
     \<Rightarrow> error + SyncService \<times> sync_env" where
  "smartMerge_try svc env clock localFilePath user =
     (let fileName = ''notes_'' @ user @ ''.encrypted'';
          download =
            (case cfg_provider (config svc) of
               WebDAV \<Rightarrow> downloadFromWebDAV (config svc) env fileName
             | GitHub \<Rightarrow> downloadFromGitHub (config svc) env fileName
             | Custom \<Rightarrow> downloadFromCustom fileName
             | ProviderNone \<Rightarrow> Inr None)
      in case download of
           Inl e \<Rightarrow> Inl e
         | Inr cloudContent \<Rightarrow>
             if \<not> truthy cloudContent
             then Inr (snd (uploadToCloud svc env localFilePath user), env)
             else
               (case readFileSync env localFilePath of
                  None \<Rightarrow> Inl FileReadError
                | Some localText \<Rightarrow>
                    (case json_parse env localText of
                       Malformed \<Rightarrow> Inl JsonSyntaxError
                     | localParsed \<Rightarrow>
                         (case json_parse env (the cloudContent) of
                            Malformed \<Rightarrow> Inl JsonSyntaxError
                          | cloudParsed \<Rightarrow>
                              (case (localParsed, cloudParsed) of
                                 (Document localData, Document cloudData) \<Rightarrow>
                                   if fs_writable env
                                   then
                                     (let merged = mergedData clock localData cloudData;
                                          written = env\<lparr>readFileSync :=
                                            (readFileSync env)
                                              (localFilePath := Some (json_stringify env merged))\<rparr>
                                      in Inr (snd (uploadToCloud svc written localFilePath user),
                                              written))
                                   else Inl FileWriteError
                               | _ \<Rightarrow> Inl TypeError)))))"

text \<open>The \<^verbatim>\<open>catch\<close> block shows the error; nothing has been written by then.\<close>

definition smartMerge ::
  "SyncService \<Rightarrow> sync_env \<Rightarrow> (nat \<Rightarrow> int) \<Rightarrow> string \<Rightarrow> string \<Rightarrow> SyncService \<times> sync_env" where
  "smartMerge svc env clock localFilePath user =
     (case smartMerge_try svc env clock localFilePath user of
        Inl e \<Rightarrow> (svc, env)
      | Inr after \<Rightarrow> after)"

section \<open>Concrete inputs for evaluation\<close>

text \<open>
  A stand-in for the cipher library at concrete inputs: the ciphertext is the
  salt in unary, a separator, the password and the text; decryption checks the
  password and yields malformed bytes on a mismatch.
\<close>

definition toy_encrypt :: "nat \<Rightarrow> string \<Rightarrow> string \<Rightarrow> string" where
  "toy_encrypt salt text password = replicate salt (CHR ''s'') @ CHR '':'' # password @ text"

definition toy_decrypt :: "string \<Rightarrow> string \<Rightarrow> string option" where
  "toy_decrypt ciphertext password =
     (let body = drop 1 (dropWhile (\<lambda>ch. ch = CHR ''s'') ciphertext)
      in if take (length password) body = password
         then Some (drop (length password) body) else None)"

definition toy_cipher :: crypto where
  "toy_cipher = \<lparr>aes_encrypt = toy_encrypt, aes_decrypt = toy_decrypt\<rparr>"

definition alice_session :: session where
  "alice_session = setCurrentUser ''alice'' ''pw'' initial_session"

definition alice_world :: world where
  "alice_world = \<lparr>sess = alice_session, files = Map.empty, disk_writable = True\<rparr>"

definition sample_note :: EncryptedNote where
  "sample_note =
     \<lparr>e_id = ''1'', e_folder = Some ''x'',
      encryptedTitle = toy_encrypt 0 ''title'' ''pw'',
      encryptedContent = toy_encrypt 0 ''content'' ''pw'',
      e_createdAt = 1, e_updatedAt = 1\<rparr>"

definition corrupt_world :: world where
  "corrupt_world = alice_world\<lparr>files := [''notes_alice.encrypted'' \<mapsto> Malformed]\<rparr>"

definition legacy_note :: EncryptedNote where
  "legacy_note =
     \<lparr>e_id = ''7'', e_folder = None,
      encryptedTitle = toy_encrypt 0 ''old'' ''pw'',
      encryptedContent = toy_encrypt 0 ''text'' ''pw'',
      e_createdAt = 3, e_updatedAt = 4\<rparr>"

definition legacy_world :: world where
  "legacy_world = alice_world\<lparr>files := [''notes_alice.encrypted'' \<mapsto> BareArray [legacy_note]]\<rparr>"

text \<open>Nobody is logged in, and the file of the fallback user name holds one note.\<close>

definition logged_out_world :: world where
  "logged_out_world =
     \<lparr>sess = initial_session,
      files = [''notes_default.encrypted'' \<mapsto>
                 Document \<lparr>st_folders = [], st_notes = [sample_note]\<rparr>],
      disk_writable = True\<rparr>"

definition sample_env :: create_env where
  "sample_env =
     \<lparr>id_time = 17, created_time = 17, updated_time = 18, title_salt = 1, content_salt = 2\<rparr>"

definition before_delete :: world where
  "before_delete =
     snd (createNote toy_cipher sample_env ''t'' ''c'' (Some ''F'')
            (snd (createFolder ''F'' 5 alice_world)))"

definition req_t_default :: create_request where
  "req_t_default =
     \<lparr>req_env = sample_env, req_title = ''t'', req_content = ''c'',
      req_folder = Some ''default''\<rparr>"

definition req_t_empty :: create_request where
  "req_t_empty =
     \<lparr>req_env = sample_env\<lparr>id_time := 19\<rparr>, req_title = ''t'', req_content = ''c'',
      req_folder = Some []\<rparr>"

definition stored_t_default :: EncryptedNote where
  "stored_t_default =
     \<lparr>e_id = ''17'', e_folder = Some ''default'',
      encryptedTitle = toy_encrypt 1 ''t'' ''pw'', encryptedContent = toy_encrypt 2 ''c'' ''pw'',
      e_createdAt = 17, e_updatedAt = 18\<rparr>"

text \<open>A request with an empty content, and the note it stores.\<close>

definition req_blank :: "int \<Rightarrow> create_request" where
  "req_blank t =
     \<lparr>req_env = sample_env\<lparr>id_time := t\<rparr>, req_title = ''t'', req_content = [],
      req_folder = Some ''F''\<rparr>"

definition stored_blank :: "string \<Rightarrow> EncryptedNote" where
  "stored_blank i =
     \<lparr>e_id = i, e_folder = Some ''F'',
      encryptedTitle = toy_encrypt 1 ''t'' ''pw'', encryptedContent = toy_encrypt 2 [] ''pw'',
      e_createdAt = 17, e_updatedAt = 18\<rparr>"

definition webdav_service :: SyncService where
  "webdav_service =
     \<lparr>config = \<lparr>cfg_provider = WebDAV, cfg_url = Some ''https://dav.example/notes'',
                 cfg_username = Some ''alice'', cfg_password = Some ''secret'',
                 cfg_token = None, cfg_autoSync = Some False\<rparr>,
      syncInProgress = False\<rparr>"

definition disabled_service :: SyncService where
  "disabled_service =
     webdav_service\<lparr>config := (config webdav_service)\<lparr>cfg_provider := ProviderNone\<rparr>\<rparr>"

text \<open>The local file is readable and every request fails to reach the server.\<close>

definition offline_env :: sync_env where
  "offline_env =
     \<lparr>readFileSync = (\<lambda>path. Some ''{}''), fs_writable = True, fetch = (\<lambda>req. None),
      secrets_token = None, json_sha = (\<lambda>body. None), json_content = (\<lambda>body. None),
      json_parse = (\<lambda>t. Malformed), json_stringify = (\<lambda>d. ''{}'')\<rparr>"

definition local_1 :: EncryptedNote where
  "local_1 =
     \<lparr>e_id = ''1'', e_folder = Some ''x'', encryptedTitle = ''LT'', encryptedContent = ''LC'',
      e_createdAt = 50, e_updatedAt = 100\<rparr>"

definition remote_1_newer :: EncryptedNote where
  "remote_1_newer =
     \<lparr>e_id = ''1'', e_folder = Some ''x'', encryptedTitle = ''RT'', encryptedContent = ''RC'',
      e_createdAt = 50, e_updatedAt = 200\<rparr>"

definition remote_1_tie :: EncryptedNote where
  "remote_1_tie = remote_1_newer\<lparr>e_updatedAt := 100\<rparr>"

definition remote_2 :: EncryptedNote where
  "remote_2 =
     \<lparr>e_id = ''2'', e_folder = Some ''y'', encryptedTitle = ''RT2'', encryptedContent = ''RC2'',
      e_createdAt = 60, e_updatedAt = 70\<rparr>"

definition local_doc :: EncryptedStorage where
  "local_doc = \<lparr>st_folders = [\<lparr>f_name = ''x'', f_createdAt = 1\<rparr>], st_notes = [local_1]\<rparr>"

definition remote_doc :: "EncryptedNote \<Rightarrow> EncryptedStorage" where
  "remote_doc r =
     \<lparr>st_folders = [\<lparr>f_name = ''y'', f_createdAt = 2\<rparr>], st_notes = [remote_2, r]\<rparr>"

section \<open>Properties of EncryptionService\<close>

lemma toy_cipher_roundtrip:
  "aes_decrypt toy_cipher (aes_encrypt toy_cipher salt t password) password = Some t"
proof -
  have "dropWhile (\<lambda>ch. ch = CHR ''s'') (replicate salt (CHR ''s'') @ CHR '':'' # password @ t)
        = CHR '':'' # password @ t"
    by (induction salt) simp_all
  then show ?thesis
    by (simp add: toy_cipher_def toy_encrypt_def toy_decrypt_def)
qed

lemma active_password_alice: "active_password alice_session = Some ''pw''"
  by (simp add: active_password_def alice_session_def setCurrentUser_def initial_session_def)

lemma hasPassword_alice: "hasPassword alice_session"
  by (simp add: hasPassword_def alice_session_def setCurrentUser_def)

lemma active_password_hasPassword: "active_password s = Some k \<Longrightarrow> hasPassword s"
  by (cases "currentUser s") (auto simp: active_password_def hasPassword_def split: if_splits)

lemma decrypt_fresh:
  assumes "active_password s = Some k"
    and "aes_decrypt c (aes_encrypt c salt t k) k = Some t"
  shows "decrypt c s (aes_encrypt c salt t k) = (if t = [] then Inl DecryptionError else Inr t)"
  using assms by (simp add: decrypt_def)

lemma decrypt_toy_alice:
  "t \<noteq> [] \<Longrightarrow> decrypt toy_cipher alice_session (toy_encrypt salt t ''pw'') = Inr t"
  using decrypt_fresh [OF active_password_alice toy_cipher_roundtrip, of salt t]
  by (simp add: toy_cipher_def)

text \<open>
  The empty plaintext never survives the round trip, whatever cipher is plugged
  in: a cipher that returns it makes \<^verbatim>\<open>decrypt\<close> raise on the emptiness test,
  and unlike a wrong key this is no fault of the ciphertext.
\<close>

lemma roundtrip_empty_fails: "encrypt_then_decrypt c s salt [] \<noteq> Inr []"
  by (auto simp: encrypt_then_decrypt_def encrypt_def decrypt_def split: option.splits)

text \<open>
  Claim C1 as stated (every plaintext round-trips) fails at the empty
  plaintext: with user alice logged in and a cipher that inverts itself on the
  empty string, \<^verbatim>\<open>decrypt(encrypt(""))\<close> raises the decryption error.
\<close>

theorem roundtrip_empty_counterexample:
  "aes_decrypt toy_cipher (aes_encrypt toy_cipher 0 [] ''pw'') ''pw'' = Some []
   \<and> encrypt_then_decrypt toy_cipher alice_session 0 [] = Inl DecryptionError"
  by (simp add: encrypt_then_decrypt_def encrypt_def decrypt_def active_password_alice
      toy_cipher_def toy_encrypt_def toy_decrypt_def)

text \<open>
  Claim C1, amended: for every non-empty plaintext \<open>t\<close>, when a user with a
  non-empty name is logged in with key \<open>k\<close> and the cipher primitive inverts
  itself at \<open>t\<close> under \<open>k\<close>, \<^verbatim>\<open>encrypt\<close> returns a ciphertext and \<^verbatim>\<open>decrypt\<close>
  of that ciphertext returns \<open>t\<close>.
\<close>

theorem encrypt_decrypt_roundtrip:
  assumes "currentUser s = Some u" and "u \<noteq> []" and "userPasswords s u = Some k"
    and "aes_decrypt c (aes_encrypt c salt t k) k = Some t"
    and "t \<noteq> []"
  shows "encrypt_then_decrypt c s salt t = Inr t"
proof -
  have key: "active_password s = Some k"
    using assms(1-3) by (simp add: active_password_def)
  then have "encrypt c s salt t = Inr (aes_encrypt c salt t k)"
    by (simp add: encrypt_def)
  moreover have "decrypt c s (aes_encrypt c salt t k) = Inr t"
    using decrypt_fresh [OF key assms(4)] assms(5) by simp
  ultimately show ?thesis
    by (simp add: encrypt_then_decrypt_def)
qed

theorem encrypt_decrypt_roundtrip_witness:
  "currentUser alice_session = Some ''alice''
   \<and> userPasswords alice_session ''alice'' = Some ''pw''
   \<and> encrypt_then_decrypt toy_cipher alice_session 3 ''note'' = Inr ''note''"
proof -
  have u: "currentUser alice_session = Some ''alice''"
    and k: "userPasswords alice_session ''alice'' = Some ''pw''"
    by (simp_all add: alice_session_def setCurrentUser_def initial_session_def)
  have ne: "''alice'' \<noteq> []" "''note'' \<noteq> []" by simp_all
  from encrypt_decrypt_roundtrip [OF u ne(1) k toy_cipher_roundtrip ne(2)] u k
  show ?thesis by simp
qed

section \<open>Properties of the storage file\<close>

lemma sess_saveStorage [simp]: "sess (saveStorage st w) = sess w"
  by (simp add: saveStorage_def)

lemma disk_writable_saveStorage [simp]: "disk_writable (saveStorage st w) = disk_writable w"
  by (simp add: saveStorage_def)

lemma getStorageFile_saveStorage [simp]: "getStorageFile (saveStorage st w) = getStorageFile w"
  by (simp add: getStorageFile_def)

lemma loadStorage_saveStorage:
  "loadStorage (saveStorage st w) = (if disk_writable w then st else loadStorage w)"
  by (simp add: loadStorage_def saveStorage_def getStorageFile_def)

lemma alice_world_facts:
  "sess alice_world = alice_session" "disk_writable alice_world"
  by (simp_all add: alice_world_def)

lemma getStorageFile_alice:
  "getStorageFile (alice_world\<lparr>files := fs\<rparr>) = ''notes_alice.encrypted''"
  by (simp add: getStorageFile_def alice_world_def alice_session_def setCurrentUser_def)

lemma loadStorage_alice_world: "loadStorage alice_world = empty_storage"
  by (simp add: loadStorage_def alice_world_def)

text \<open>
  Claim C3 as stated fails: on a file that does not parse, \<^verbatim>\<open>loadStorage\<close>
  hands the caller the empty document. The function has no path that raises:
  its whole body sits in a \<^verbatim>\<open>try\<close> whose \<^verbatim>\<open>catch\<close> only logs.
\<close>

theorem loadStorage_malformed_counterexample:
  "files corrupt_world (getStorageFile corrupt_world) = Some Malformed
   \<and> loadStorage corrupt_world = \<lparr>st_folders = [], st_notes = []\<rparr>"
  unfolding corrupt_world_def
  by (simp add: loadStorage_def getStorageFile_alice empty_storage_def)

text \<open>
  Claim C3, amended: when the per-user file exists and its content is not
  parseable JSON, \<^verbatim>\<open>loadStorage\<close> returns the empty document
  \<^verbatim>\<open>{folders: [], notes: []}\<close> to the caller and raises nothing.
\<close>

theorem loadStorage_malformed:
  "files w (getStorageFile w) = Some Malformed \<Longrightarrow>
   loadStorage w = \<lparr>st_folders = [], st_notes = []\<rparr>"
  by (simp add: loadStorage_def empty_storage_def)

theorem loadStorage_malformed_witness:
  "files (alice_world\<lparr>files := [''notes_alice.encrypted'' \<mapsto> Malformed]\<rparr>)
      ''notes_alice.encrypted'' = Some Malformed
   \<and> loadStorage (alice_world\<lparr>files := [''notes_alice.encrypted'' \<mapsto> Malformed]\<rparr>)
      = \<lparr>st_folders = [], st_notes = []\<rparr>"
  using loadStorage_malformed
    [of "alice_world\<lparr>files := [''notes_alice.encrypted'' \<mapsto> Malformed]\<rparr>"]
  by (simp add: getStorageFile_alice)

text \<open>
  Claim C8: when the persisted file parses to a bare JSON array at the top
  level, \<^verbatim>\<open>loadStorage\<close> returns the document whose folder list is empty and
  whose note list is exactly that array.
\<close>

theorem loadStorage_bare_array:
  "files w (getStorageFile w) = Some (BareArray parsed) \<Longrightarrow>
   loadStorage w = \<lparr>st_folders = [], st_notes = parsed\<rparr>"
  by (simp add: loadStorage_def)

theorem loadStorage_bare_array_witness:
  "loadStorage (alice_world\<lparr>files := [''notes_alice.encrypted'' \<mapsto> BareArray [sample_note]]\<rparr>)
     = \<lparr>st_folders = [], st_notes = [sample_note]\<rparr>"
  using loadStorage_bare_array
    [of "alice_world\<lparr>files := [''notes_alice.encrypted'' \<mapsto> BareArray [sample_note]]\<rparr>"
        "[sample_note]"]
  by (simp add: getStorageFile_alice)

section \<open>The password check\<close>

lemma loadStorage_logged_out:
  "loadStorage logged_out_world = \<lparr>st_folders = [], st_notes = [sample_note]\<rparr>"
proof -
  have "getStorageFile logged_out_world = ''notes_default.encrypted''"
    by (simp add: getStorageFile_def logged_out_world_def initial_session_def)
  then show ?thesis
    by (simp add: loadStorage_def) (simp add: logged_out_world_def)
qed

text \<open>
  Claim C4 as stated fails for \<^verbatim>\<open>deleteNote\<close>, which has no password test:
  with nobody logged in it rewrites the file of the fallback user name without
  the note. (\<^verbatim>\<open>deleteFolder\<close> has no test either.)
\<close>

theorem deleteNote_without_key_counterexample:
  "\<not> hasPassword (sess logged_out_world)
   \<and> st_notes (loadStorage logged_out_world) = [sample_note]
   \<and> st_notes (loadStorage (deleteNote ''1'' logged_out_world)) = []"
proof -
  have "\<not> hasPassword (sess logged_out_world)"
    by (simp add: logged_out_world_def hasPassword_def initial_session_def)
  moreover have "disk_writable logged_out_world"
    by (simp add: logged_out_world_def)
  then have "st_notes (loadStorage (deleteNote ''1'' logged_out_world)) = []"
    by (simp add: deleteNote_def loadStorage_saveStorage loadStorage_logged_out sample_note_def)
  ultimately show ?thesis
    by (simp add: loadStorage_logged_out)
qed

text \<open>
  Claim C4, amended: for the operations that read or write note contents
  (\<^verbatim>\<open>getAllNotes\<close>, \<^verbatim>\<open>getNote\<close>, \<^verbatim>\<open>createNote\<close>, \<^verbatim>\<open>updateNote\<close>), when
  \<^verbatim>\<open>hasPassword()\<close> is false the operation fails closed: the listing is empty,
  the lookup returns \<^verbatim>\<open>null\<close>, creating and updating raise, and the world
  (hence the stored document) is what it was.
\<close>

theorem gated_operations_fail_closed:
  assumes "\<not> hasPassword (sess w)"
  shows "getAllNotes c w = []
       \<and> getNote c w ident = Inr None
       \<and> createNote c env title content folder_arg w = (Inl NoPasswordError, w)
       \<and> updateNote c now salt1 salt2 ident title content w = (Inl NoPasswordError, w)"
  using assms by (simp add: getAllNotes_def getNote_def createNote_def updateNote_def)

theorem gated_operations_fail_closed_witness:
  "\<not> hasPassword (sess logged_out_world)
   \<and> getAllNotes toy_cipher logged_out_world = []
   \<and> getNote toy_cipher logged_out_world ''1'' = Inr None
   \<and> createNote toy_cipher sample_env ''t'' ''c'' None logged_out_world
       = (Inl NoPasswordError, logged_out_world)
   \<and> updateNote toy_cipher 20 1 2 ''1'' ''t'' ''c'' logged_out_world
       = (Inl NoPasswordError, logged_out_world)"
proof -
  have h: "\<not> hasPassword (sess logged_out_world)"
    by (simp add: logged_out_world_def hasPassword_def initial_session_def)
  from h gated_operations_fail_closed
    [OF h, of toy_cipher "''1''" sample_env "''t''" "''c''" None 20 1 2]
  show ?thesis by simp
qed

section \<open>Reading notes\<close>

lemma decryptedNotes_append:
  "decryptedNotes c s (xs @ ys) = decryptedNotes c s xs @ decryptedNotes c s ys"
  by (induction xs) (simp_all split: sum.splits)

lemma decryptedNotes_member:
  "n \<in> set (decryptedNotes c s es) \<longleftrightarrow> (\<exists>e \<in> set es. decrypt_note c s e = Inr n)"
  by (induction es) (auto split: sum.splits)

lemma decrypt_note_folder:
  "decrypt_note c s e = Inr n \<Longrightarrow> n_folder n = folder_or_default (e_folder e)"
  by (auto simp: decrypt_note_def split: sum.splits)

lemma folder_or_default_eq:
  "folder_or_default f = name \<Longrightarrow> name \<noteq> ''default'' \<Longrightarrow> f = Some name"
  by (cases f) (auto simp: folder_or_default_def split: if_splits)

lemma decrypt_note_toy:
  "t \<noteq> [] \<Longrightarrow> ct \<noteq> [] \<Longrightarrow>
   decrypt_note toy_cipher alice_session
     \<lparr>e_id = i, e_folder = f, encryptedTitle = toy_encrypt s1 t ''pw'',
      encryptedContent = toy_encrypt s2 ct ''pw'', e_createdAt = t1, e_updatedAt = t2\<rparr>
   = Inr \<lparr>n_id = i, n_folder = folder_or_default f, n_title = t, n_content = ct,
          n_createdAt = t1, n_updatedAt = t2\<rparr>"
  by (simp add: decrypt_note_def decrypt_toy_alice)

lemma find_distinct_key:
  "distinct (map f xs) \<Longrightarrow> x \<in> set xs \<Longrightarrow> find (\<lambda>y. f y = f x) xs = Some x"
  by (induction xs) (auto simp: image_iff)

lemma loadStorage_legacy_world:
  "loadStorage legacy_world = \<lparr>st_folders = [], st_notes = [legacy_note]\<rparr>"
  unfolding legacy_world_def by (simp add: loadStorage_def getStorageFile_alice)

lemma sess_legacy_world: "sess legacy_world = alice_session"
  by (simp add: legacy_world_def alice_world_def)

text \<open>
  Claim C10: for every stored note whose folder field is missing or the empty
  string, \<^verbatim>\<open>getAllNotes\<close> and \<^verbatim>\<open>getNote\<close> return that note with folder
  \<^verbatim>\<open>"default"\<close>. The note is returned when a password is active and both of its
  fields decrypt; \<^verbatim>\<open>getNote\<close> finds it by its id, the ids of the document
  being pairwise different. Both functions only read: they return no new
  world, so the stored document is what it was.
\<close>

theorem folder_fallback_on_read:
  assumes "hasPassword (sess w)"
    and "e \<in> set (st_notes (loadStorage w))"
    and "e_folder e = None \<or> e_folder e = Some []"
    and "decrypt c (sess w) (encryptedTitle e) = Inr title"
    and "decrypt c (sess w) (encryptedContent e) = Inr content"
    and "distinct (map e_id (st_notes (loadStorage w)))"
    and "n = \<lparr>n_id = e_id e, n_folder = ''default'', n_title = title, n_content = content,
              n_createdAt = e_createdAt e, n_updatedAt = e_updatedAt e\<rparr>"
  shows "n \<in> set (getAllNotes c w) \<and> getNote c w (e_id e) = Inr (Some n)"
proof -
  have dn: "decrypt_note c (sess w) e = Inr n"
    using assms(3,4,5,7) by (auto simp: decrypt_note_def folder_or_default_def)
  have "n \<in> set (getAllNotes c w)"
    using assms(1,2) dn by (auto simp: getAllNotes_def decryptedNotes_member)
  moreover have "find (\<lambda>y. e_id y = e_id e) (st_notes (loadStorage w)) = Some e"
    using assms(6,2) by (rule find_distinct_key)
  then have "getNote c w (e_id e) = Inr (Some n)"
    using assms(1) dn by (simp add: getNote_def)
  ultimately show ?thesis by simp
qed

theorem folder_fallback_on_read_witness:
  "e_folder legacy_note = None
   \<and> st_notes (loadStorage legacy_world) = [legacy_note]
   \<and> \<lparr>n_id = ''7'', n_folder = ''default'', n_title = ''old'', n_content = ''text'',
       n_createdAt = 3, n_updatedAt = 4\<rparr> \<in> set (getAllNotes toy_cipher legacy_world)
   \<and> getNote toy_cipher legacy_world ''7'' =
       Inr (Some \<lparr>n_id = ''7'', n_folder = ''default'', n_title = ''old'', n_content = ''text'',
                  n_createdAt = 3, n_updatedAt = 4\<rparr>)"
proof -
  have a: "hasPassword (sess legacy_world)"
    by (simp add: sess_legacy_world hasPassword_alice)
  have b: "legacy_note \<in> set (st_notes (loadStorage legacy_world))"
    by (simp add: loadStorage_legacy_world)
  have c: "e_folder legacy_note = None \<or> e_folder legacy_note = Some []"
    by (simp add: legacy_note_def)
  have d: "decrypt toy_cipher (sess legacy_world) (encryptedTitle legacy_note) = Inr ''old''"
    by (simp add: sess_legacy_world legacy_note_def decrypt_toy_alice)
  have e: "decrypt toy_cipher (sess legacy_world) (encryptedContent legacy_note) = Inr ''text''"
    by (simp add: sess_legacy_world legacy_note_def decrypt_toy_alice)
  have f: "distinct (map e_id (st_notes (loadStorage legacy_world)))"
    by (simp add: loadStorage_legacy_world)
  from folder_fallback_on_read [OF a b c d e f refl]
  show ?thesis
    by (simp add: loadStorage_legacy_world) (simp add: legacy_note_def)
qed

section \<open>Deleting a folder\<close>

lemma sess_createFolder [simp]: "sess (snd (createFolder name now w)) = sess w"
  by (simp add: createFolder_def Let_def)

lemma disk_writable_createFolder [simp]:
  "disk_writable (snd (createFolder name now w)) = disk_writable w"
  by (simp add: createFolder_def Let_def)

lemma sess_createNote [simp]: "sess (snd (createNote c env title content folder_arg w)) = sess w"
  by (simp add: createNote_def Let_def split: option.splits sum.splits)

lemma disk_writable_createNote [simp]:
  "disk_writable (snd (createNote c env title content folder_arg w)) = disk_writable w"
  by (simp add: createNote_def Let_def split: option.splits sum.splits)

lemma sess_deleteFolder [simp]: "sess (deleteFolder name w) = sess w"
  by (simp add: deleteFolder_def Let_def)

lemma deleteFolder_storage:
  "disk_writable w \<Longrightarrow>
   loadStorage (deleteFolder name w) =
     (loadStorage w)
       \<lparr>st_folders := filter (\<lambda>f. f_name f \<noteq> name) (st_folders (loadStorage w)),
        st_notes := filter (\<lambda>n. e_folder n \<noteq> Some name) (st_notes (loadStorage w))\<rparr>"
  by (simp add: deleteFolder_def Let_def loadStorage_saveStorage)

lemma deleteFolder_listed:
  assumes "disk_writable w" and "name \<noteq> ''default''"
  shows "name \<notin> n_folder ` set (getAllNotes c (deleteFolder name w))"
proof
  assume "name \<in> n_folder ` set (getAllNotes c (deleteFolder name w))"
  then obtain n where n: "n \<in> set (getAllNotes c (deleteFolder name w))" "n_folder n = name"
    by auto
  from n(1) obtain e where e: "e \<in> set (st_notes (loadStorage (deleteFolder name w)))"
      "decrypt_note c (sess w) e = Inr n"
    by (auto simp: getAllNotes_def decryptedNotes_member split: if_splits)
  from e(2) n(2) assms(2) have "e_folder e = Some name"
    by (auto dest!: decrypt_note_folder intro: folder_or_default_eq)
  with e(1) assms(1) show False
    by (simp add: deleteFolder_storage)
qed

lemma toString_17: "toString 17 = ''17''"
  by (simp add: toString_def digits.simps digit_char_def)

lemma toString_19: "toString 19 = ''19''"
  by (simp add: toString_def digits.simps digit_char_def)

lemma before_delete_storage:
  "loadStorage before_delete =
     \<lparr>st_folders = [\<lparr>f_name = ''F'', f_createdAt = 5\<rparr>],
      st_notes = [\<lparr>e_id = ''17'', e_folder = Some ''F'',
                   encryptedTitle = toy_encrypt 1 ''t'' ''pw'',
                   encryptedContent = toy_encrypt 2 ''c'' ''pw'',
                   e_createdAt = 17, e_updatedAt = 18\<rparr>]\<rparr>"
  apply (simp add: before_delete_def createNote_def createFolder_def Let_def getAllNotes_def
      loadStorage_saveStorage loadStorage_alice_world empty_storage_def)
  apply (simp add: alice_world_def hasPassword_alice encrypt_def active_password_alice
      toy_cipher_def sample_env_def toString_17 loadStorage_saveStorage)
  done

lemma sess_before_delete: "sess before_delete = alice_session"
  by (simp add: before_delete_def alice_world_def)

text \<open>
  Claim C7: after \<^verbatim>\<open>deleteFolder(name)\<close> (the write to disk succeeding), the
  stored document has no folder entry with that name and no note whose folder
  field equals the name; and after \<^verbatim>\<open>createFolder("F")\<close>,
  \<^verbatim>\<open>createNote("t", "c", "F")\<close>, \<^verbatim>\<open>deleteFolder("F")\<close>, run from any such world,
  \<^verbatim>\<open>getFolders()\<close> does not contain \<^verbatim>\<open>"F"\<close> and \<^verbatim>\<open>getAllNotes()\<close> contains no
  note with folder \<^verbatim>\<open>"F"\<close>.
\<close>

theorem deleteFolder_cascade:
  assumes "disk_writable w"
  shows "name \<notin> f_name ` set (getFolders (deleteFolder name w))
       \<and> Some name \<notin> e_folder ` set (st_notes (loadStorage (deleteFolder name w)))
       \<and> ''F'' \<notin> f_name ` set (getFolders (cascade_scenario c now env w))
       \<and> ''F'' \<notin> n_folder ` set (getAllNotes c (cascade_scenario c now env w))"
proof -
  have "name \<notin> f_name ` set (getFolders (deleteFolder name w))"
    using assms by (auto simp: getFolders_def deleteFolder_storage)
  moreover have "Some name \<notin> e_folder ` set (st_notes (loadStorage (deleteFolder name w)))"
    using assms by (auto simp: deleteFolder_storage)
  moreover have "''F'' \<notin> f_name ` set (getFolders (cascade_scenario c now env w))"
    using assms by (auto simp: cascade_scenario_def getFolders_def deleteFolder_storage)
  moreover have "''F'' \<notin> n_folder ` set (getAllNotes c (cascade_scenario c now env w))"
    unfolding cascade_scenario_def using assms by (intro deleteFolder_listed) simp_all
  ultimately show ?thesis by blast
qed

theorem deleteFolder_cascade_witness:
  "disk_writable alice_world
   \<and> ''F'' \<in> f_name ` set (getFolders before_delete)
   \<and> ''F'' \<in> n_folder ` set (getAllNotes toy_cipher before_delete)
   \<and> ''F'' \<notin> f_name ` set (getFolders (cascade_scenario toy_cipher 5 sample_env alice_world))
   \<and> ''F'' \<notin> n_folder `
        set (getAllNotes toy_cipher (cascade_scenario toy_cipher 5 sample_env alice_world))"
proof -
  have w: "disk_writable alice_world"
    by (simp add: alice_world_def)
  have "''F'' \<in> f_name ` set (getFolders before_delete)"
    by (simp add: getFolders_def before_delete_storage)
  moreover have "''F'' \<in> n_folder ` set (getAllNotes toy_cipher before_delete)"
    by (simp add: getAllNotes_def before_delete_storage sess_before_delete hasPassword_alice
        decrypt_note_toy folder_or_default_def)
  ultimately show ?thesis
    using w deleteFolder_cascade [OF w, of "''F''" toy_cipher 5 sample_env] by simp
qed

section \<open>Uniqueness of titles\<close>

lemma getAllNotes_saveStorage:
  "disk_writable w \<Longrightarrow> hasPassword (sess w) \<Longrightarrow>
   getAllNotes c (saveStorage st w) = decryptedNotes c (sess w) (st_notes st)"
  by (simp add: getAllNotes_def loadStorage_saveStorage)

lemma title_keys_storage:
  "hasPassword (sess w) \<Longrightarrow>
   title_keys c w =
     map (\<lambda>n. (n_folder n, n_title n)) (decryptedNotes c (sess w) (st_notes (loadStorage w)))"
  by (simp add: title_keys_def getAllNotes_def)

text \<open>A call either leaves the world as it was or appends the new note to the file.\<close>

lemma createNote_cases:
  "snd (createNote c env title content folder_arg w) = w
   \<or> (\<exists>k folder. active_password (sess w) = Some k \<and> hasPassword (sess w) \<and> disk_writable w
        \<and> folder = (case folder_arg of None \<Rightarrow> ''default'' | Some f \<Rightarrow> f)
        \<and> (folder, title) \<notin> set (title_keys c w)
        \<and> snd (createNote c env title content folder_arg w) =
            saveStorage ((loadStorage w)\<lparr>st_notes := st_notes (loadStorage w) @
              [\<lparr>e_id = toString (id_time env), e_folder = Some folder,
                encryptedTitle = aes_encrypt c (title_salt env) title k,
                encryptedContent = aes_encrypt c (content_salt env) content k,
                e_createdAt = created_time env, e_updatedAt = updated_time env\<rparr>]\<rparr>) w)"
proof (cases "snd (createNote c env title content folder_arg w) = w")
  case True
  then show ?thesis by simp
next
  case False
  let ?folder = "case folder_arg of None \<Rightarrow> ''default'' | Some f \<Rightarrow> f"
  have hp: "hasPassword (sess w)"
  proof (rule ccontr)
    assume "\<not> hasPassword (sess w)"
    then have "snd (createNote c env title content folder_arg w) = w"
      by (simp add: createNote_def)
    with False show False by simp
  qed
  have nf: "find (\<lambda>n. n_folder n = ?folder \<and> n_title n = title) (getAllNotes c w) = None"
  proof (rule ccontr)
    assume "find (\<lambda>n. n_folder n = ?folder \<and> n_title n = title) (getAllNotes c w) \<noteq> None"
    then have "snd (createNote c env title content folder_arg w) = w"
      by (auto simp: createNote_def Let_def)
    with False show False by simp
  qed
  have "active_password (sess w) \<noteq> None"
  proof
    assume "active_password (sess w) = None"
    then have "snd (createNote c env title content folder_arg w) = w"
      by (simp add: createNote_def Let_def encrypt_def split: option.splits)
    with False show False by simp
  qed
  then obtain k where k: "active_password (sess w) = Some k"
    by auto
  have dw: "disk_writable w"
  proof (rule ccontr)
    assume "\<not> disk_writable w"
    then have "snd (createNote c env title content folder_arg w) = w"
      by (simp add: createNote_def Let_def saveStorage_def split: option.splits sum.splits)
    with False show False by simp
  qed
  from nf have "(?folder, title) \<notin> set (title_keys c w)"
    by (auto simp: find_None_iff title_keys_def)
  moreover have "snd (createNote c env title content folder_arg w) =
            saveStorage ((loadStorage w)\<lparr>st_notes := st_notes (loadStorage w) @
              [\<lparr>e_id = toString (id_time env), e_folder = Some ?folder,
                encryptedTitle = aes_encrypt c (title_salt env) title k,
                encryptedContent = aes_encrypt c (content_salt env) content k,
                e_createdAt = created_time env, e_updatedAt = updated_time env\<rparr>]\<rparr>) w"
    using hp nf k by (simp add: createNote_def Let_def encrypt_def)
  ultimately show ?thesis
    using k hp dw by blast
qed

lemma createNote_keeps_unique:
  assumes rt: "\<And>k salt t. active_password (sess w) = Some k \<Longrightarrow>
                 aes_decrypt c (aes_encrypt c salt t k) k = Some t"
    and uniq: "distinct (title_keys c w)"
    and nonempty: "folder_arg \<noteq> Some []"
  shows "distinct (title_keys c (snd (createNote c env title content folder_arg w)))"
  using createNote_cases [of c env title content folder_arg w]
proof (elim disjE exE conjE)
  assume "snd (createNote c env title content folder_arg w) = w"
  with uniq show ?thesis by simp
next
  fix k folder
  assume k: "active_password (sess w) = Some k" and hp: "hasPassword (sess w)"
    and dw: "disk_writable w"
    and folder: "folder = (case folder_arg of None \<Rightarrow> ''default'' | Some f \<Rightarrow> f)"
    and fresh: "(folder, title) \<notin> set (title_keys c w)"
    and eq: "snd (createNote c env title content folder_arg w) =
            saveStorage ((loadStorage w)\<lparr>st_notes := st_notes (loadStorage w) @
              [\<lparr>e_id = toString (id_time env), e_folder = Some folder,
                encryptedTitle = aes_encrypt c (title_salt env) title k,
                encryptedContent = aes_encrypt c (content_salt env) content k,
                e_createdAt = created_time env, e_updatedAt = updated_time env\<rparr>]\<rparr>) w"
  have fne: "folder \<noteq> []"
    using folder nonempty by (cases folder_arg) auto
  have old: "getAllNotes c w = decryptedNotes c (sess w) (st_notes (loadStorage w))"
    using hp by (simp add: getAllNotes_def)
  let ?e = "\<lparr>e_id = toString (id_time env), e_folder = Some folder,
                encryptedTitle = aes_encrypt c (title_salt env) title k,
                encryptedContent = aes_encrypt c (content_salt env) content k,
                e_createdAt = created_time env, e_updatedAt = updated_time env\<rparr>"
  have new: "title_keys c (snd (createNote c env title content folder_arg w)) =
        title_keys c w @ map (\<lambda>n. (n_folder n, n_title n)) (decryptedNotes c (sess w) [?e])"
    unfolding eq title_keys_def
    by (simp only: getAllNotes_saveStorage [OF dw hp] old) (simp add: decryptedNotes_append)
  have "set (map (\<lambda>n. (n_folder n, n_title n)) (decryptedNotes c (sess w) [?e]))
          \<subseteq> {(folder, title)}"
    using fne by (auto simp: decrypt_note_def decrypt_fresh [OF k rt [OF k]] folder_or_default_def
        split: sum.splits if_splits)
  moreover have "length (decryptedNotes c (sess w) [?e]) \<le> 1"
    by (simp split: sum.splits)
  then have "distinct (map (\<lambda>n. (n_folder n, n_title n)) (decryptedNotes c (sess w) [?e]))"
    by (cases "decryptedNotes c (sess w) [?e]") (auto split: sum.splits)
  ultimately show ?thesis
    using uniq fresh unfolding new by auto
qed

lemma createNote_duplicate:
  assumes "(folder, title) \<in> set (title_keys c w)"
    and "folder = (case folder_arg of None \<Rightarrow> ''default'' | Some f \<Rightarrow> f)"
  shows "createNote c env title content folder_arg w = (Inl (DuplicateTitleError folder title), w)"
proof -
  from assms(1) have hp: "hasPassword (sess w)"
    by (auto simp: title_keys_def getAllNotes_def split: if_splits)
  from assms(1)
  have "find (\<lambda>n. n_folder n = folder \<and> n_title n = title) (getAllNotes c w) \<noteq> None"
    by (auto simp: find_None_iff title_keys_def)
  then obtain d
    where "find (\<lambda>n. n_folder n = folder \<and> n_title n = title) (getAllNotes c w) = Some d"
    by auto
  with hp assms(2) show ?thesis
    by (simp add: createNote_def)
qed

lemma createNote_stores:
  assumes "active_password (sess w) = Some k" and "disk_writable w"
    and "(folder, title) \<notin> set (title_keys c w)"
    and "folder = (case folder_arg of None \<Rightarrow> ''default'' | Some f \<Rightarrow> f)"
  shows "loadStorage (snd (createNote c env title content folder_arg w)) =
     (loadStorage w)\<lparr>st_notes := st_notes (loadStorage w) @
              [\<lparr>e_id = toString (id_time env), e_folder = Some folder,
                encryptedTitle = aes_encrypt c (title_salt env) title k,
                encryptedContent = aes_encrypt c (content_salt env) content k,
                e_createdAt = created_time env, e_updatedAt = updated_time env\<rparr>]\<rparr>"
proof -
  have hp: "hasPassword (sess w)"
    using assms(1) by (rule active_password_hasPassword)
  have "find (\<lambda>n. n_folder n = folder \<and> n_title n = title) (getAllNotes c w) = None"
    using assms(3) by (force simp: find_None_iff title_keys_def)
  then show ?thesis
    using hp assms(1,2,4) by (simp add: createNote_def Let_def encrypt_def loadStorage_saveStorage)
qed

lemma sess_createNotes [simp]: "sess (createNotes c reqs w) = sess w"
  by (induction reqs arbitrary: w) simp_all

lemma disk_writable_createNotes [simp]:
  "disk_writable (createNotes c reqs w) = disk_writable w"
  by (induction reqs arbitrary: w) simp_all

lemma createNotes_snoc:
  "createNotes c (rs @ [r]) w =
     snd (createNote c (req_env r) (req_title r) (req_content r) (req_folder r)
            (createNotes c rs w))"
  by (induction rs arbitrary: w) simp_all

lemma after_first_create:
  "loadStorage (createNotes toy_cipher [req_t_default] alice_world)
     = \<lparr>st_folders = [], st_notes = [stored_t_default]\<rparr>"
proof -
  have "(''default'', ''t'') \<notin> set (title_keys toy_cipher alice_world)"
    by (simp add: title_keys_storage alice_world_facts hasPassword_alice
        loadStorage_alice_world empty_storage_def)
  from createNote_stores [OF _ _ this, of "''pw''" "Some ''default''" sample_env "''c''"]
  show ?thesis
    by (simp add: alice_world_facts active_password_alice req_t_default_def
        loadStorage_alice_world empty_storage_def sample_env_def toString_17 toy_cipher_def
        stored_t_default_def)
qed

lemma keys_after_first_create:
  "title_keys toy_cipher (createNotes toy_cipher [req_t_default] alice_world)
     = [(''default'', ''t'')]"
  by (simp only: title_keys_storage sess_createNotes alice_world_facts hasPassword_alice
      after_first_create)
    (simp add: stored_t_default_def decrypt_note_toy folder_or_default_def)

lemma toString_31: "toString 31 = ''31''"
  by (simp add: toString_def digits.simps digit_char_def)

lemma toString_32: "toString 32 = ''32''"
  by (simp add: toString_def digits.simps digit_char_def)

lemma decrypt_toy_alice_empty:
  "decrypt toy_cipher alice_session (toy_encrypt salt [] ''pw'') = Inl DecryptionError"
  using decrypt_fresh [OF active_password_alice toy_cipher_roundtrip, of salt "[]"]
  by (simp add: toy_cipher_def)

lemma decrypt_note_blank:
  "decrypt_note toy_cipher alice_session (stored_blank i) = Inl DecryptionError"
  by (simp add: decrypt_note_def stored_blank_def decrypt_toy_alice decrypt_toy_alice_empty)

lemma after_first_blank:
  "loadStorage (createNotes toy_cipher [req_blank 31] alice_world)
     = \<lparr>st_folders = [], st_notes = [stored_blank ''31'']\<rparr>"
proof -
  have "(''F'', ''t'') \<notin> set (title_keys toy_cipher alice_world)"
    by (simp add: title_keys_storage alice_world_facts hasPassword_alice
        loadStorage_alice_world empty_storage_def)
  from createNote_stores [OF _ _ this, of "''pw''" "Some ''F''" "req_env (req_blank 31)" "[]"]
  show ?thesis
    by (simp add: alice_world_facts active_password_alice req_blank_def
        loadStorage_alice_world empty_storage_def sample_env_def toString_31 toy_cipher_def
        stored_blank_def)
qed

lemma keys_after_first_blank:
  "title_keys toy_cipher (createNotes toy_cipher [req_blank 31] alice_world) = []"
  by (simp only: title_keys_storage sess_createNotes alice_world_facts hasPassword_alice
      after_first_blank)
    (simp add: decrypt_note_blank)

lemma after_second_blank:
  "loadStorage (createNotes toy_cipher [req_blank 31, req_blank 32] alice_world)
     = \<lparr>st_folders = [], st_notes = [stored_blank ''31'', stored_blank ''32'']\<rparr>"
proof -
  let ?w1 = "createNotes toy_cipher [req_blank 31] alice_world"
  have split: "createNotes toy_cipher [req_blank 31, req_blank 32] alice_world =
      snd (createNote toy_cipher (req_env (req_blank 32)) ''t'' [] (Some ''F'') ?w1)"
    using createNotes_snoc [of toy_cipher "[req_blank 31]" "req_blank 32" alice_world]
    by (simp add: req_blank_def)
  have "(''F'', ''t'') \<notin> set (title_keys toy_cipher ?w1)"
    by (simp add: keys_after_first_blank del: createNotes.simps)
  from createNote_stores [OF _ _ this, of "''pw''" "Some ''F''" "req_env (req_blank 32)" "[]"]
  show ?thesis
    unfolding split
    by (simp add: alice_world_facts active_password_alice after_first_blank
        del: createNotes.simps)
      (simp add: req_blank_def sample_env_def toString_32 toy_cipher_def stored_blank_def)
qed

lemma listed_after_empty_folder:
  "title_keys toy_cipher (createNotes toy_cipher [req_t_default, req_t_empty] alice_world)
     = [(''default'', ''t''), (''default'', ''t'')]"
proof -
  let ?w1 = "createNotes toy_cipher [req_t_default] alice_world"
  have split: "createNotes toy_cipher [req_t_default, req_t_empty] alice_world =
      snd (createNote toy_cipher (req_env req_t_empty) ''t'' ''c'' (Some []) ?w1)"
    using createNotes_snoc [of toy_cipher "[req_t_default]" req_t_empty alice_world]
    by (simp add: req_t_empty_def)
  have "([], ''t'') \<notin> set (title_keys toy_cipher ?w1)"
    by (simp add: keys_after_first_create del: createNotes.simps)
  from createNote_stores [OF _ _ this, of "''pw''" "Some []" "req_env req_t_empty" "''c''"]
  have "loadStorage (createNotes toy_cipher [req_t_default, req_t_empty] alice_world) =
      \<lparr>st_folders = [],
       st_notes = [stored_t_default,
         \<lparr>e_id = ''19'', e_folder = Some [],
          encryptedTitle = toy_encrypt 1 ''t'' ''pw'', encryptedContent = toy_encrypt 2 ''c'' ''pw'',
          e_createdAt = 17, e_updatedAt = 18\<rparr>]\<rparr>"
    unfolding split
    by (simp add: alice_world_facts active_password_alice after_first_create
        del: createNotes.simps)
      (simp add: req_t_empty_def sample_env_def toString_19 toy_cipher_def)
  then show ?thesis
    by (simp only: title_keys_storage sess_createNotes alice_world_facts hasPassword_alice)
      (simp add: stored_t_default_def decrypt_note_toy folder_or_default_def)
qed

lemma stored_after_blank:
  "map (\<lambda>e. (e_folder e, aes_decrypt toy_cipher (encryptedTitle e) ''pw''))
       (st_notes (loadStorage (createNotes toy_cipher [req_blank 31, req_blank 32] alice_world)))
     = [(Some ''F'', Some ''t''), (Some ''F'', Some ''t'')]
   \<and> getAllNotes toy_cipher (createNotes toy_cipher [req_blank 31, req_blank 32] alice_world) = []"
proof -
  have "aes_decrypt toy_cipher (toy_encrypt 1 ''t'' ''pw'') ''pw'' = Some ''t''"
    using toy_cipher_roundtrip [of 1 "''t''" "''pw''"] by (simp add: toy_cipher_def)
  then show ?thesis
    by (simp only: getAllNotes_def sess_createNotes alice_world_facts hasPassword_alice
        after_second_blank)
      (simp add: decrypt_note_blank, simp add: stored_blank_def)
qed

text \<open>
  Claim C5 as stated fails, in the listing and in the file.
  \<^verbatim>\<open>createNote("t", "c", "default")\<close> followed by \<^verbatim>\<open>createNote("t", "c", "")\<close>
  succeeds twice, because the duplicate test compares the argument \<^verbatim>\<open>""\<close>
  with folders read back through the fallback \<^verbatim>\<open>folder || 'default'\<close>; the
  listing then holds two notes with the pair \<^verbatim>\<open>("default", "t")\<close>. And
  \<^verbatim>\<open>createNote("t", "", "F")\<close> succeeds twice, because a note with an empty
  content does not decrypt and the duplicate test looks at decryptable notes
  only; the file then holds two notes of folder \<^verbatim>\<open>"F"\<close> whose titles are
  encryptions of \<^verbatim>\<open>"t"\<close>, none of them listed.
\<close>

theorem createNote_duplicates_counterexample:
  "title_keys toy_cipher (createNotes toy_cipher [req_t_default, req_t_empty] alice_world)
     = [(''default'', ''t''), (''default'', ''t'')]
   \<and> map (\<lambda>e. (e_folder e, aes_decrypt toy_cipher (encryptedTitle e) ''pw''))
       (st_notes (loadStorage (createNotes toy_cipher [req_blank 31, req_blank 32] alice_world)))
     = [(Some ''F'', Some ''t''), (Some ''F'', Some ''t'')]
   \<and> getAllNotes toy_cipher (createNotes toy_cipher [req_blank 31, req_blank 32] alice_world) = []"
  using listed_after_empty_folder stored_after_blank by (simp del: createNotes.simps)

text \<open>
  Claim C5, amended: for every sequence of \<^verbatim>\<open>createNote\<close> calls whose folder
  argument is not the empty string, run under a cipher that inverts itself for
  the active key on a store whose listed notes have pairwise different
  \<open>(folder, title)\<close> pairs, no two notes that \<^verbatim>\<open>getAllNotes\<close> lists afterwards
  share a \<open>(folder, title)\<close> pair; and a further \<^verbatim>\<open>createNote\<close> whose pair is
  among the listed ones raises the duplicate-title error and leaves the world
  (hence the stored document) unchanged.
\<close>

theorem createNote_unique_titles:
  assumes rt: "\<And>k salt t. active_password (sess w) = Some k \<Longrightarrow>
                 aes_decrypt c (aes_encrypt c salt t k) k = Some t"
    and uniq: "distinct (title_keys c w)"
    and nonempty: "Some [] \<notin> req_folder ` set reqs"
  shows "distinct (title_keys c (createNotes c reqs w))
       \<and> ((case folder_arg of None \<Rightarrow> ''default'' | Some f \<Rightarrow> f, title)
              \<in> set (title_keys c (createNotes c reqs w)) \<longrightarrow>
            createNote c env title content folder_arg (createNotes c reqs w)
              = (Inl (DuplicateTitleError
                        (case folder_arg of None \<Rightarrow> ''default'' | Some f \<Rightarrow> f) title),
                 createNotes c reqs w))"
proof -
  have "distinct (title_keys c (createNotes c reqs w))"
    using assms
  proof (induction reqs arbitrary: w)
    case Nil
    then show ?case by simp
  next
    case (Cons r rs)
    let ?w1 = "snd (createNote c (req_env r) (req_title r) (req_content r) (req_folder r) w)"
    have "distinct (title_keys c ?w1)"
      using Cons.prems by (intro createNote_keeps_unique) auto
    moreover have "\<And>k salt t. active_password (sess ?w1) = Some k \<Longrightarrow>
                 aes_decrypt c (aes_encrypt c salt t k) k = Some t"
      using Cons.prems(1) by simp
    moreover have "Some [] \<notin> req_folder ` set rs"
      using Cons.prems(3) by auto
    ultimately show ?case
      using Cons.IH [of ?w1] by simp
  qed
  then show ?thesis
    by (auto intro: createNote_duplicate)
qed

theorem createNote_unique_titles_witness:
  "distinct (title_keys toy_cipher alice_world)
   \<and> Some [] \<notin> req_folder ` set [req_t_default, req_t_default]
   \<and> distinct (title_keys toy_cipher
        (createNotes toy_cipher [req_t_default, req_t_default] alice_world))
   \<and> (''default'', ''t'') \<in> set (title_keys toy_cipher
        (createNotes toy_cipher [req_t_default, req_t_default] alice_world))
   \<and> createNote toy_cipher sample_env ''t'' ''again'' (Some ''default'')
        (createNotes toy_cipher [req_t_default, req_t_default] alice_world)
       = (Inl (DuplicateTitleError ''default'' ''t''),
          createNotes toy_cipher [req_t_default, req_t_default] alice_world)"
proof -
  let ?w1 = "createNotes toy_cipher [req_t_default] alice_world"
  let ?w2 = "createNotes toy_cipher [req_t_default, req_t_default] alice_world"
  have a: "distinct (title_keys toy_cipher alice_world)"
    by (simp add: title_keys_storage alice_world_facts hasPassword_alice
        loadStorage_alice_world empty_storage_def)
  have b: "Some [] \<notin> req_folder ` set [req_t_default, req_t_default]"
    by (simp add: req_t_default_def)
  have "createNote toy_cipher sample_env ''t'' ''c'' (Some ''default'') ?w1
          = (Inl (DuplicateTitleError ''default'' ''t''), ?w1)"
    by (rule createNote_duplicate) (simp_all add: keys_after_first_create del: createNotes.simps)
  then have same: "?w2 = ?w1"
    using createNotes_snoc [of toy_cipher "[req_t_default]" req_t_default alice_world]
    by (simp add: req_t_default_def)
  have c: "(''default'', ''t'') \<in> set (title_keys toy_cipher ?w2)"
    unfolding same by (simp add: keys_after_first_create del: createNotes.simps)
  from createNote_unique_titles
    [of alice_world toy_cipher "[req_t_default, req_t_default]" "Some ''default''" "''t''"
        sample_env "''again''", OF toy_cipher_roundtrip a b] a b c
  show ?thesis
    by (simp del: createNotes.simps)
qed

section \<open>Upload\<close>

text \<open>
  A transport failure of the WebDAV backend (the request does not reach the
  server, or the server answers with a failure status) is an exception inside
  the \<^verbatim>\<open>try\<close> block.
\<close>

lemma uploadToCloud_try_webdav_failure:
  assumes "cfg_provider (config svc) = WebDAV"
    and "truthy (cfg_url (config svc))" and "truthy (cfg_username (config svc))"
    and "truthy (cfg_password (config svc))"
    and "readFileSync env localFilePath = Some fileContent"
    and "fetch env
           (WebDAVPut (the (cfg_url (config svc)) @ ''/'' @ ''notes_'' @ user @ ''.encrypted'')
              (the (cfg_username (config svc))) (the (cfg_password (config svc))) fileContent)
         = answer"
    and "answer = None \<or> (\<exists>response. answer = Some response \<and> \<not> r_ok response)"
  shows "\<exists>e. uploadToCloud_try svc env localFilePath user = Inl e"
  using assms by (auto simp: uploadToCloud_try_def uploadToWebDAV_def)

text \<open>
  Claim C6 as stated fails: with a WebDAV backend configured and the network
  down, the upload path raises inside \<^verbatim>\<open>uploadToCloud\<close>, whose \<^verbatim>\<open>catch\<close>
  block turns the exception into the return value \<^verbatim>\<open>false\<close>. The caller
  receives no error.
\<close>

theorem uploadToCloud_transport_failure_counterexample:
  "uploadToCloud_try webdav_service offline_env ''/notes/notes_alice.encrypted'' ''alice''
     = Inl NetworkError
   \<and> uploadToCloud webdav_service offline_env ''/notes/notes_alice.encrypted'' ''alice''
     = (Inr False, webdav_service)"
  by (simp add: uploadToCloud_def uploadToCloud_try_def uploadToWebDAV_def webdav_service_def
      offline_env_def)

text \<open>
  Claim C6, amended: \<^verbatim>\<open>uploadToCloud\<close> never raises. It returns \<^verbatim>\<open>false\<close> and
  leaves the service as it was when no backend is configured; when the upload
  path raises (a transport failure among the causes) it returns \<^verbatim>\<open>false\<close> with
  the \<^verbatim>\<open>syncInProgress\<close> flag cleared; and a call that starts with the flag
  clear always ends with the flag clear.
\<close>

theorem uploadToCloud_returns_false:
  "(\<exists>b. fst (uploadToCloud svc env localFilePath user) = Inr b)
   \<and> (cfg_provider (config svc) = ProviderNone \<longrightarrow>
        uploadToCloud svc env localFilePath user = (Inr False, svc))
   \<and> (cfg_provider (config svc) \<noteq> ProviderNone \<and> \<not> syncInProgress svc
        \<and> uploadToCloud_try (svc\<lparr>syncInProgress := True\<rparr>) env localFilePath user = Inl e \<longrightarrow>
        uploadToCloud svc env localFilePath user = (Inr False, svc\<lparr>syncInProgress := False\<rparr>))
   \<and> (\<not> syncInProgress svc \<longrightarrow>
        \<not> syncInProgress (snd (uploadToCloud svc env localFilePath user)))"
  by (auto simp: uploadToCloud_def Let_def split: sum.splits)

theorem uploadToCloud_returns_false_witness:
  "uploadToCloud disabled_service offline_env ''/notes/notes_alice.encrypted'' ''alice''
     = (Inr False, disabled_service)
   \<and> uploadToCloud webdav_service offline_env ''/notes/notes_alice.encrypted'' ''alice''
     = (Inr False, webdav_service\<lparr>syncInProgress := False\<rparr>)
   \<and> \<not> syncInProgress
        (snd (uploadToCloud webdav_service offline_env ''/notes/notes_alice.encrypted'' ''alice''))"
proof -
  have a: "cfg_provider (config disabled_service) = ProviderNone"
    by (simp add: disabled_service_def)
  have b: "cfg_provider (config webdav_service) \<noteq> ProviderNone"
    "\<not> syncInProgress webdav_service"
    by (simp_all add: webdav_service_def)
  have c: "uploadToCloud_try (webdav_service\<lparr>syncInProgress := True\<rparr>) offline_env
             ''/notes/notes_alice.encrypted'' ''alice'' = Inl NetworkError"
    by (simp add: uploadToCloud_try_def uploadToWebDAV_def webdav_service_def offline_env_def)
  from uploadToCloud_returns_false
      [of disabled_service offline_env "''/notes/notes_alice.encrypted''" "''alice''"]
    uploadToCloud_returns_false
      [of webdav_service offline_env "''/notes/notes_alice.encrypted''" "''alice''" NetworkError]
    a b c
  show ?thesis by simp
qed

section \<open>Merge\<close>

lemma keyed_update: "keyed m \<Longrightarrow> keyed (AList.update (e_id n) n m)"
  unfolding keyed_def
  by (auto simp: AList.distinct_update) (induction m, auto split: if_splits)

lemma keyed_seed: "keyed m \<Longrightarrow> keyed (foldl (\<lambda>m n. AList.update (e_id n) n m) m ls)"
  by (induction ls arbitrary: m) (simp_all add: keyed_update)

lemma keyed_mergeCloudNote: "keyed m \<Longrightarrow> keyed (mergeCloudNote m cloudNote)"
  by (simp add: mergeCloudNote_def keyed_update split: option.splits)

lemma keyed_foldl_merge: "keyed m \<Longrightarrow> keyed (foldl mergeCloudNote m cs)"
  by (induction cs arbitrary: m) (simp_all add: keyed_mergeCloudNote)

lemma keyed_mergedNotesMap: "keyed (mergedNotesMap ls cs)"
  unfolding mergedNotesMap_def seedLocal_def
  by (intro keyed_foldl_merge keyed_seed) (simp add: keyed_def)

text \<open>In a keyed map the values with a given id are the one entry stored under it.\<close>

lemma keyed_filter:
  "keyed m \<Longrightarrow> map_of m i = Some v \<Longrightarrow> filter (\<lambda>n. e_id n = i) (map snd m) = [v]"
proof (induction m)
  case Nil
  then show ?case by simp
next
  case (Cons p m)
  obtain k x where p: "p = (k, x)" by (cases p)
  from Cons.prems(1) have km: "keyed m" and kx: "k = e_id x" and fresh: "k \<notin> fst ` set m"
    and vals: "\<forall>(k', v') \<in> set m. k' = e_id v'"
    by (auto simp: keyed_def p)
  show ?case
  proof (cases "k = i")
    case True
    then have "v = x" using Cons.prems(2) p by simp
    moreover have "filter (\<lambda>n. e_id n = i) (map snd m) = []"
      using fresh vals True by (fastforce simp: filter_empty_conv image_iff)
    ultimately show ?thesis using True kx p by simp
  next
    case False
    then show ?thesis using Cons.IH [OF km] Cons.prems(2) p kx by simp
  qed
qed

lemma map_of_seed:
  "map_of (foldl (\<lambda>m n. AList.update (e_id n) n m) m ls) i =
     (if i \<in> e_id ` set ls then map_of (map (\<lambda>n. (e_id n, n)) (rev ls)) i else map_of m i)"
  by (induction ls arbitrary: m rule: rev_induct) (auto simp: AList.update_conv')

lemma map_of_seedLocal_absent: "i \<notin> e_id ` set ls \<Longrightarrow> map_of (seedLocal ls) i = None"
  by (simp add: seedLocal_def map_of_seed)

lemma map_of_seedLocal_present:
  assumes "distinct (map e_id ls)" and "l \<in> set ls"
  shows "map_of (seedLocal ls) (e_id l) = Some l"
proof -
  have "distinct (map fst (map (\<lambda>n. (e_id n, n)) (rev ls)))"
    using assms(1) by (simp add: comp_def rev_map [symmetric])
  moreover have "(e_id l, l) \<in> set (map (\<lambda>n. (e_id n, n)) (rev ls))"
    using assms(2) by auto
  ultimately have "map_of (map (\<lambda>n. (e_id n, n)) (rev ls)) (e_id l) = Some l"
    by (rule map_of_is_SomeI)
  then show ?thesis
    using assms(2) by (simp add: seedLocal_def map_of_seed)
qed

lemma map_of_mergeCloudNote:
  "map_of (mergeCloudNote m cloudNote) i =
     (if i = e_id cloudNote then Some (newer cloudNote (map_of m i)) else map_of m i)"
  by (auto simp: mergeCloudNote_def newer_def AList.update_conv' split: option.splits)

lemma map_of_merge_other:
  "i \<notin> e_id ` set cs \<Longrightarrow> map_of (foldl mergeCloudNote m cs) i = map_of m i"
  by (induction cs arbitrary: m) (auto simp: map_of_mergeCloudNote)

lemma map_of_merge_cloud:
  "distinct (map e_id cs) \<Longrightarrow> r \<in> set cs \<Longrightarrow>
   map_of (foldl mergeCloudNote m cs) (e_id r) = Some (newer r (map_of m (e_id r)))"
proof (induction cs arbitrary: m)
  case Nil
  then show ?case by simp
next
  case (Cons cloudNote cs)
  show ?case
  proof (cases "r = cloudNote")
    case True
    then have "e_id r \<notin> e_id ` set cs" using Cons.prems(1) by auto
    then show ?thesis
      using True by (simp add: map_of_merge_other map_of_mergeCloudNote)
  next
    case False
    then have r: "r \<in> set cs" using Cons.prems(2) by simp
    have "e_id cloudNote \<notin> e_id ` set cs" using Cons.prems(1) by simp
    with r have "e_id r \<noteq> e_id cloudNote" by (metis imageI)
    then show ?thesis
      using Cons.IH [OF _ r, of "mergeCloudNote m cloudNote"] Cons.prems(1)
      by (simp add: map_of_mergeCloudNote)
  qed
qed

lemma st_notes_mergedData:
  "st_notes (mergedData clock localData cloudData)
     = map snd (mergedNotesMap (st_notes localData) (st_notes cloudData))"
  by (simp add: mergedData_def)

text \<open>
  What \<^verbatim>\<open>smartMerge\<close> leaves in the local file when the download yields a
  document and the local file holds one: the merged document.
\<close>

lemma smartMerge_writes_merged:
  assumes "cfg_provider (config svc) = WebDAV"
    and "downloadFromWebDAV (config svc) env (''notes_'' @ user @ ''.encrypted'')
           = Inr (Some cloudText)"
    and "cloudText \<noteq> []"
    and "readFileSync env localFilePath = Some localText"
    and "json_parse env localText = Document localData"
    and "json_parse env cloudText = Document cloudData"
    and "fs_writable env"
  shows "readFileSync (snd (smartMerge svc env clock localFilePath user)) localFilePath
           = Some (json_stringify env (mergedData clock localData cloudData))"
  using assms by (simp add: smartMerge_def smartMerge_try_def Let_def)

text \<open>
  Claim C2: for every note id present in both documents (ids being pairwise
  different inside each document), the merged document holds exactly one note
  with that id: the remote version when the remote \<^verbatim>\<open>updatedAt\<close> is strictly
  greater than the local one, and the local version otherwise, ties included.
\<close>

theorem merge_last_writer_wins:
  assumes "distinct (map e_id (st_notes localData))"
    and "distinct (map e_id (st_notes cloudData))"
    and "l \<in> set (st_notes localData)" and "r \<in> set (st_notes cloudData)"
    and "e_id l = e_id r"
  shows "filter (\<lambda>n. e_id n = e_id r) (st_notes (mergedData clock localData cloudData))
           = [if e_updatedAt r > e_updatedAt l then r else l]"
proof -
  let ?m = "mergedNotesMap (st_notes localData) (st_notes cloudData)"
  have "map_of (seedLocal (st_notes localData)) (e_id r) = Some l"
    using map_of_seedLocal_present [OF assms(1,3)] assms(5) by simp
  then have "map_of ?m (e_id r) = Some (if e_updatedAt r > e_updatedAt l then r else l)"
    using map_of_merge_cloud [OF assms(2,4), of "seedLocal (st_notes localData)"]
    by (simp add: mergedNotesMap_def newer_def)
  with keyed_mergedNotesMap show ?thesis
    unfolding st_notes_mergedData by (rule keyed_filter)
qed

theorem merge_last_writer_wins_witness:
  "filter (\<lambda>n. e_id n = ''1'')
      (st_notes (mergedData (\<lambda>i. 9) local_doc (remote_doc remote_1_newer))) = [remote_1_newer]
   \<and> filter (\<lambda>n. e_id n = ''1'')
      (st_notes (mergedData (\<lambda>i. 9) local_doc (remote_doc remote_1_tie))) = [local_1]"
  using merge_last_writer_wins
      [of local_doc "remote_doc remote_1_newer" local_1 remote_1_newer "\<lambda>i. 9"]
    merge_last_writer_wins
      [of local_doc "remote_doc remote_1_tie" local_1 remote_1_tie "\<lambda>i. 9"]
  by (simp add: local_doc_def remote_doc_def local_1_def remote_1_newer_def remote_1_tie_def
      remote_2_def)

text \<open>
  Claim C9: every note of the remote document whose id is absent from the
  local document is in the merged document (remote ids being pairwise
  different): a note deleted locally comes back.
\<close>

theorem merge_adds_unseen_remote:
  assumes "distinct (map e_id (st_notes cloudData))" and "r \<in> set (st_notes cloudData)"
    and "e_id r \<notin> e_id ` set (st_notes localData)"
  shows "r \<in> set (st_notes (mergedData clock localData cloudData))"
proof -
  let ?m = "mergedNotesMap (st_notes localData) (st_notes cloudData)"
  have "map_of (seedLocal (st_notes localData)) (e_id r) = None"
    using assms(3) by (rule map_of_seedLocal_absent)
  then have "map_of ?m (e_id r) = Some r"
    using map_of_merge_cloud [OF assms(1,2), of "seedLocal (st_notes localData)"]
    by (simp add: mergedNotesMap_def newer_def)
  then have "(e_id r, r) \<in> set ?m"
    by (rule map_of_SomeD)
  then show ?thesis
    unfolding st_notes_mergedData by force
qed

theorem merge_adds_unseen_remote_witness:
  "remote_2 \<notin> set (st_notes local_doc)
   \<and> remote_2 \<in> set (st_notes (mergedData (\<lambda>i. 9) local_doc (remote_doc remote_1_newer)))"
  using merge_adds_unseen_remote [of "remote_doc remote_1_newer" remote_2 local_doc "\<lambda>i. 9"]
  by (simp add: local_doc_def remote_doc_def local_1_def remote_1_newer_def remote_2_def)

end
